theory Spec2Isabelle
  imports Main "HOL-Library.Sublist" "HOL-Library.Multiset" "HOL-Library.Char_ord"
    "HOL-Library.List_Lexorder"
begin

section \<open>The cached findNodes listing and the removal of nodes from it\<close>

text \<open>
  A cached listing (\<open>FindNodesCachedObject\<close>, declared in types/apollo, which is not among
  the sources; the fields are those the two cache modifiers read and write): the
  arguments of the query, the page token and the two lists of node references. The
  references are opaque (\<open>'r\<close>); their id is read through the cache's \<open>readField\<close>,
  which gives \<open>undefined\<close> (\<open>None\<close>) for a dangling reference.
\<close>

record QueryFindNodesArgs =
  folder_id :: "string option"
  shared_by_me :: "bool option"
  shared_with_me :: "bool option"

record 'r NodesListCachedObject =
  ordered :: "'r list"
  unOrdered :: "'r list"

record 'r FindNodesCachedObject =
  args :: "QueryFindNodesArgs option"
  page_token :: "string option"
  nodes :: "'r NodesListCachedObject option"

text \<open>What a field modifier of \<open>cache.modify\<close> returns: the \<open>DELETE\<close> sentinel, which
  removes the field from the cache, or the new value of the field (possibly \<open>undefined\<close>).\<close>

datatype 'v Modifier = DELETE | Value 'v

text \<open>JavaScript truthiness of a \<open>string | null | undefined\<close>: \<open>null\<close>, \<open>undefined\<close> and the
  empty string are falsy.\<close>

definition truthy :: "string option \<Rightarrow> bool" where
  "truthy s = (case s of None \<Rightarrow> False | Some v \<Rightarrow> v \<noteq> [])"

text \<open>\<open>existingNodesRefs.nodes?.ordered\<close> and \<open>existingNodesRefs.nodes?.unOrdered\<close> as lodash's
  \<open>filter\<close> and \<open>size\<close> read them: an absent list is the empty one.\<close>

definition nodes_ordered :: "'r FindNodesCachedObject \<Rightarrow> 'r list" where
  "nodes_ordered e = (case nodes e of None \<Rightarrow> [] | Some n \<Rightarrow> ordered n)"

definition nodes_unOrdered :: "'r FindNodesCachedObject \<Rightarrow> 'r list" where
  "nodes_unOrdered e = (case nodes e of None \<Rightarrow> [] | Some n \<Rightarrow> unOrdered n)"

text \<open>
  The \<open>findNodes\<close> modifier of \<open>removeNodeFromFilter\<close>
  (hooks/graphql/mutations/useDeleteShareMutation.ts): \<open>readField\<close> is the cache's reader
  of the id of a reference, \<open>checkFilter\<close> the caller's choice of the listings to update.
\<close>

definition removeNodeFromFilter ::
  "('r \<Rightarrow> string option) \<Rightarrow> string \<Rightarrow> ('r FindNodesCachedObject \<Rightarrow> bool) \<Rightarrow>
   'r FindNodesCachedObject option \<Rightarrow> 'r FindNodesCachedObject option Modifier" where
  "removeNodeFromFilter readField nodeId checkFilter existingNodesRefs =
     (case existingNodesRefs of
        None \<Rightarrow> Value existingNodesRefs
      | Some e \<Rightarrow>
          if checkFilter e then
            (let ordered' = filter (\<lambda>orderedNode. Some nodeId \<noteq> readField orderedNode)
                              (nodes_ordered e);
                 unOrdered' = filter (\<lambda>unOrderedNode. Some nodeId \<noteq> readField unOrderedNode)
                              (nodes_unOrdered e)
             in if truthy (page_token e) \<and> length ordered' = 0 \<and> length unOrdered' = 0
                then DELETE
                else Value (Some \<lparr>args = args e, page_token = page_token e,
                                  nodes = Some \<lparr>ordered = ordered', unOrdered = unOrdered'\<rparr>\<rparr>))
          else Value existingNodesRefs)"

text \<open>The two filters \<open>useDeleteShareMutation\<close> passes as \<open>checkFilter\<close>: the listing of the
  nodes shared by me (outside the search view) and the listing of the nodes shared with me.\<close>

definition sharedByMeFilter :: "bool \<Rightarrow> 'r FindNodesCachedObject \<Rightarrow> bool" where
  "sharedByMeFilter isSearchView e =
     ((case args e of None \<Rightarrow> False | Some a \<Rightarrow> shared_by_me a = Some True) \<and> \<not> isSearchView)"

definition sharedWithMeFilter :: "'r FindNodesCachedObject \<Rightarrow> bool" where
  "sharedWithMeFilter e = (case args e of None \<Rightarrow> False | Some a \<Rightarrow> shared_with_me a = Some True)"

text \<open>
  The \<open>findNodes\<close> modifier of \<open>useTrashNodesMutation\<close>: \<open>TRASH\<close> is the constant
  \<open>ROOTS.TRASH\<close> (constants.ts is not among the sources, so it is a parameter),
  \<open>trashedNodes\<close> the ids the mutation returned. The modifier applies to the listing of
  a folder other than the trash (\<open>folderListingOutsideTrash\<close>, the condition of its
  \<open>if\<close>); a reference is kept when its id is readable, not empty and not trashed
  (\<open>notTrashed\<close>, the predicate of both \<open>filter\<close> calls).
\<close>

definition folderListingOutsideTrash :: "string \<Rightarrow> 'r FindNodesCachedObject \<Rightarrow> bool" where
  "folderListingOutsideTrash TRASH e =
     (case args e of None \<Rightarrow> False
      | Some a \<Rightarrow> truthy (folder_id a) \<and> folder_id a \<noteq> Some TRASH)"

definition notTrashed :: "('r \<Rightarrow> string option) \<Rightarrow> string list \<Rightarrow> 'r \<Rightarrow> bool" where
  "notTrashed readField trashedNodes node =
     (case readField node of
        None \<Rightarrow> False
      | Some nodeId \<Rightarrow> nodeId \<noteq> [] \<and> nodeId \<notin> set trashedNodes)"

definition trashNodes_findNodes ::
  "string \<Rightarrow> ('r \<Rightarrow> string option) \<Rightarrow> string list \<Rightarrow>
   'r FindNodesCachedObject option \<Rightarrow> 'r FindNodesCachedObject option Modifier" where
  "trashNodes_findNodes TRASH readField trashedNodes existingNodesRefs =
     (case existingNodesRefs of
        None \<Rightarrow> Value existingNodesRefs
      | Some e \<Rightarrow>
          if folderListingOutsideTrash TRASH e then
            (let ordered' = filter (notTrashed readField trashedNodes) (nodes_ordered e);
                 unOrdered' = filter (notTrashed readField trashedNodes) (nodes_unOrdered e)
             in if truthy (page_token e) \<and> length ordered' = 0 \<and> length unOrdered' = 0
                then DELETE
                else Value (Some \<lparr>args = args e, page_token = page_token e,
                                  nodes = Some \<lparr>ordered = ordered', unOrdered = unOrdered'\<rparr>\<rparr>))
          else Value existingNodesRefs)"

section \<open>Nodes, sort keys and the comparator\<close>

text \<open>
  Modelled from the spec: the node, its type and the sort keys (\<open>SortableNode\<close> of
  types/common, \<open>NodeType\<close> and \<open>NodeSort\<close> of types/graphql/types are not among the sources).
  A node has the fields the comparator reads: the id, the name, the type, the size
  (absent for a folder) and the time of the last update. Of the node types the sources
  name \<open>Folder\<close>, \<open>Root\<close> and \<open>Other\<close>; \<open>Other\<close> stands for every type of file. A node is
  folder-like when its type is \<open>Folder\<close> or \<open>Root\<close>, the test the list items of the sources
  make for a node one can navigate into. The sort keys are those of the spec (name, size,
  time of update, each in both directions) and the two type keys.
\<close>

datatype NodeType = Folder | Root | Other

record Node =
  node_id :: string
  name :: string
  node_type :: NodeType
  node_size :: "int option"
  updated_at :: "int option"

datatype NodeSort =
  NameAsc | NameDesc | SizeAsc | SizeDesc | TypeAsc | TypeDesc | UpdatedAtAsc | UpdatedAtDesc

definition folderLike :: "Node \<Rightarrow> bool" where
  "folderLike n = (node_type n = Folder \<or> node_type n = Root)"

text \<open>
  Modelled from the spec: \<open>nodeSortComparator\<close> of utils/utils, which is not among the
  sources. On two nodes it is the comparator of the spec (section 4.1, \<open>compareNodes\<close>
  here), which gives -1, 0 or 1: it compares key by key in the order of the sort
  specification, by type with the folder-like nodes first (last for the descending
  key), by name without regard to case, by size or by time of update, an absent size or
  time counting as 0; when every key ties, the ids decide. The elements \<open>sortNodes\<close> passes
  may be \<open>null\<close> (\<open>None\<close>); neither the sources nor the spec say how a \<open>null\<close> compares, so that
  comparison is the parameter \<open>onNull\<close>.
\<close>

definition three_way :: "'a::linorder \<Rightarrow> 'a \<Rightarrow> int" where
  "three_way x y = (if x < y then - 1 else if x = y then 0 else 1)"

definition toLowerCase :: "string \<Rightarrow> nat list" where
  "toLowerCase s =
     map (\<lambda>c. if (65::nat) \<le> of_char c \<and> of_char c \<le> (90::nat)
              then of_char c + 32 else of_char c) s"

definition typeRank :: "Node \<Rightarrow> nat" where
  "typeRank n = (if folderLike n then 0 else 1)"

definition sizeOrZero :: "Node \<Rightarrow> int" where
  "sizeOrZero n = (case node_size n of None \<Rightarrow> 0 | Some s \<Rightarrow> s)"

definition updatedAtOrZero :: "Node \<Rightarrow> int" where
  "updatedAtOrZero n = (case updated_at n of None \<Rightarrow> 0 | Some t \<Rightarrow> t)"

fun compareByKey :: "NodeSort \<Rightarrow> Node \<Rightarrow> Node \<Rightarrow> int" where
  "compareByKey NameAsc a b = three_way (toLowerCase (name a)) (toLowerCase (name b))"
| "compareByKey NameDesc a b = three_way (toLowerCase (name b)) (toLowerCase (name a))"
| "compareByKey SizeAsc a b = three_way (sizeOrZero a) (sizeOrZero b)"
| "compareByKey SizeDesc a b = three_way (sizeOrZero b) (sizeOrZero a)"
| "compareByKey TypeAsc a b = three_way (typeRank a) (typeRank b)"
| "compareByKey TypeDesc a b = three_way (typeRank b) (typeRank a)"
| "compareByKey UpdatedAtAsc a b = three_way (updatedAtOrZero a) (updatedAtOrZero b)"
| "compareByKey UpdatedAtDesc a b = three_way (updatedAtOrZero b) (updatedAtOrZero a)"

fun compareNodes :: "Node \<Rightarrow> Node \<Rightarrow> NodeSort list \<Rightarrow> int" where
  "compareNodes a b [] = three_way (node_id a) (node_id b)"
| "compareNodes a b (k # ks) =
     (if compareByKey k a b \<noteq> 0 then compareByKey k a b else compareNodes a b ks)"

definition nodeSortComparator ::
  "(Node option \<Rightarrow> Node option \<Rightarrow> NodeSort list \<Rightarrow> int) \<Rightarrow>
   Node option \<Rightarrow> Node option \<Rightarrow> NodeSort list \<Rightarrow> int" where
  "nodeSortComparator onNull a b keys =
     (case a of
        None \<Rightarrow> onNull a b keys
      | Some x \<Rightarrow> (case b of None \<Rightarrow> onNull a b keys | Some y \<Rightarrow> compareNodes x y keys))"

text \<open>
  \<open>sortNodes\<close> of mocks/mockUtils.ts, over a list of nodes or \<open>null\<close>s. \<open>sortsList\<close> is its local
  constant: the size sorts stand alone, every other sort comes after \<open>TypeAsc\<close>. \<open>arraySort\<close>
  stands for \<open>Array.prototype.sort\<close> with a comparator, a stable sort (here by insertion).
  \<open>onNull\<close> is passed on to the comparator.
\<close>

definition sortsList :: "NodeSort \<Rightarrow> NodeSort list" where
  "sortsList s = (if s = SizeAsc \<or> s = SizeDesc then [s] else [TypeAsc, s])"

fun insertSorted :: "('a \<Rightarrow> 'a \<Rightarrow> int) \<Rightarrow> 'a \<Rightarrow> 'a list \<Rightarrow> 'a list" where
  "insertSorted c x [] = [x]"
| "insertSorted c x (y # ys) = (if c x y \<le> 0 then x # y # ys else y # insertSorted c x ys)"

definition arraySort :: "('a \<Rightarrow> 'a \<Rightarrow> int) \<Rightarrow> 'a list \<Rightarrow> 'a list" where
  "arraySort c xs = foldr (insertSorted c) xs []"

definition sortNodes ::
  "(Node option \<Rightarrow> Node option \<Rightarrow> NodeSort list \<Rightarrow> int) \<Rightarrow>
   Node option list \<Rightarrow> NodeSort \<Rightarrow> Node option list" where
  "sortNodes onNull nodeList s =
     arraySort (\<lambda>a b. nodeSortComparator onNull a b (sortsList s)) nodeList"

section \<open>Removal from a cached listing\<close>

lemma removeNodeFromFilter_Some:
  "checkFilter e \<Longrightarrow>
   removeNodeFromFilter readField nodeId checkFilter (Some e) =
     (if truthy (page_token e)
         \<and> filter (\<lambda>n. Some nodeId \<noteq> readField n) (nodes_ordered e) = []
         \<and> filter (\<lambda>n. Some nodeId \<noteq> readField n) (nodes_unOrdered e) = []
      then DELETE
      else Value (Some \<lparr>args = args e, page_token = page_token e,
             nodes = Some \<lparr>ordered = filter (\<lambda>n. Some nodeId \<noteq> readField n) (nodes_ordered e),
                            unOrdered = filter (\<lambda>n. Some nodeId \<noteq> readField n)
                                          (nodes_unOrdered e)\<rparr>\<rparr>))"
  by (simp add: removeNodeFromFilter_def Let_def)

lemma trashNodes_findNodes_Some:
  "folderListingOutsideTrash TRASH e \<Longrightarrow>
   trashNodes_findNodes TRASH readField trashedNodes (Some e) =
     (if truthy (page_token e)
         \<and> filter (notTrashed readField trashedNodes) (nodes_ordered e) = []
         \<and> filter (notTrashed readField trashedNodes) (nodes_unOrdered e) = []
      then DELETE
      else Value (Some \<lparr>args = args e, page_token = page_token e,
             nodes = Some \<lparr>ordered = filter (notTrashed readField trashedNodes) (nodes_ordered e),
                            unOrdered = filter (notTrashed readField trashedNodes)
                                          (nodes_unOrdered e)\<rparr>\<rparr>))"
  by (simp add: trashNodes_findNodes_def Let_def)

lemma nodes_ordered_make [simp]:
  "nodes_ordered \<lparr>args = a, page_token = t, nodes = Some \<lparr>ordered = xs, unOrdered = ys\<rparr>\<rparr> = xs"
  by (simp add: nodes_ordered_def)

lemma nodes_unOrdered_make [simp]:
  "nodes_unOrdered \<lparr>args = a, page_token = t, nodes = Some \<lparr>ordered = xs, unOrdered = ys\<rparr>\<rparr> = ys"
  by (simp add: nodes_unOrdered_def)

text \<open>
  C10, as amended. When the unshare modifier applies to a listing (the caller's filter
  accepts it) or the trash modifier does (the listing is of a folder other than the
  trash), the cached entry is deleted exactly when its page token is truthy, that is
  neither null nor the empty string, and no reference is left in either list after the
  removal; in every other case the entry is rewritten with \<open>args\<close> and \<open>page_token\<close> as they
  were and the two filtered lists.
\<close>

theorem findNodes_entry_deleted_or_rewritten:
  "(checkFilter e \<longrightarrow>
      ((removeNodeFromFilter readField nodeId checkFilter (Some e) = DELETE) =
         (page_token e \<noteq> None \<and> page_token e \<noteq> Some []
          \<and> (\<forall>n \<in> set (nodes_ordered e). readField n = Some nodeId)
          \<and> (\<forall>n \<in> set (nodes_unOrdered e). readField n = Some nodeId)))
      \<and> (removeNodeFromFilter readField nodeId checkFilter (Some e) \<noteq> DELETE \<longrightarrow>
           (\<exists>os us. removeNodeFromFilter readField nodeId checkFilter (Some e) =
                Value (Some \<lparr>args = args e, page_token = page_token e,
                               nodes = Some \<lparr>ordered = os, unOrdered = us\<rparr>\<rparr>)
              \<and> os = filter (\<lambda>n. readField n \<noteq> Some nodeId) (nodes_ordered e)
              \<and> us = filter (\<lambda>n. readField n \<noteq> Some nodeId) (nodes_unOrdered e))))
   \<and> (folderListingOutsideTrash TRASH e \<longrightarrow>
      ((trashNodes_findNodes TRASH readField trashedNodes (Some e) = DELETE) =
         (page_token e \<noteq> None \<and> page_token e \<noteq> Some []
          \<and> (\<forall>n \<in> set (nodes_ordered e). \<not> notTrashed readField trashedNodes n)
          \<and> (\<forall>n \<in> set (nodes_unOrdered e). \<not> notTrashed readField trashedNodes n)))
      \<and> (trashNodes_findNodes TRASH readField trashedNodes (Some e) \<noteq> DELETE \<longrightarrow>
           (\<exists>os us. trashNodes_findNodes TRASH readField trashedNodes (Some e) =
                Value (Some \<lparr>args = args e, page_token = page_token e,
                               nodes = Some \<lparr>ordered = os, unOrdered = us\<rparr>\<rparr>)
              \<and> os = filter (notTrashed readField trashedNodes) (nodes_ordered e)
              \<and> us = filter (notTrashed readField trashedNodes) (nodes_unOrdered e))))"
proof -
  have neq: "(\<lambda>n. Some nodeId \<noteq> readField n) = (\<lambda>n. readField n \<noteq> Some nodeId)"
    by auto
  have tr: "truthy (page_token e) = (page_token e \<noteq> None \<and> page_token e \<noteq> Some [])"
    by (cases "page_token e") (simp_all add: truthy_def)
  have unshare: "checkFilter e \<longrightarrow>
      ((removeNodeFromFilter readField nodeId checkFilter (Some e) = DELETE) =
         (page_token e \<noteq> None \<and> page_token e \<noteq> Some []
          \<and> (\<forall>n \<in> set (nodes_ordered e). readField n = Some nodeId)
          \<and> (\<forall>n \<in> set (nodes_unOrdered e). readField n = Some nodeId)))
      \<and> (removeNodeFromFilter readField nodeId checkFilter (Some e) \<noteq> DELETE \<longrightarrow>
           (\<exists>os us. removeNodeFromFilter readField nodeId checkFilter (Some e) =
                Value (Some \<lparr>args = args e, page_token = page_token e,
                               nodes = Some \<lparr>ordered = os, unOrdered = us\<rparr>\<rparr>)
              \<and> os = filter (\<lambda>n. readField n \<noteq> Some nodeId) (nodes_ordered e)
              \<and> us = filter (\<lambda>n. readField n \<noteq> Some nodeId) (nodes_unOrdered e)))"
    by (simp add: removeNodeFromFilter_Some neq tr filter_empty_conv)
  have trash: "folderListingOutsideTrash TRASH e \<longrightarrow>
      ((trashNodes_findNodes TRASH readField trashedNodes (Some e) = DELETE) =
         (page_token e \<noteq> None \<and> page_token e \<noteq> Some []
          \<and> (\<forall>n \<in> set (nodes_ordered e). \<not> notTrashed readField trashedNodes n)
          \<and> (\<forall>n \<in> set (nodes_unOrdered e). \<not> notTrashed readField trashedNodes n)))
      \<and> (trashNodes_findNodes TRASH readField trashedNodes (Some e) \<noteq> DELETE \<longrightarrow>
           (\<exists>os us. trashNodes_findNodes TRASH readField trashedNodes (Some e) =
                Value (Some \<lparr>args = args e, page_token = page_token e,
                               nodes = Some \<lparr>ordered = os, unOrdered = us\<rparr>\<rparr>)
              \<and> os = filter (notTrashed readField trashedNodes) (nodes_ordered e)
              \<and> us = filter (notTrashed readField trashedNodes) (nodes_unOrdered e)))"
    by (simp add: trashNodes_findNodes_Some tr filter_empty_conv)
  from unshare trash show ?thesis by blast
qed

text \<open>
  The theorem at two listings with the token of the mocks (\<open>next_page_token\<close>): the
  listing of the nodes shared with me holding only the unshared node is deleted, and
  the listing of a folder keeps its second node, its arguments and its token when the
  first is trashed.
\<close>

theorem findNodes_entry_deleted_or_rewritten_witness:
  "sharedWithMeFilter
     \<lparr>args = Some \<lparr>folder_id = None, shared_by_me = None, shared_with_me = Some True\<rparr>,
      page_token = Some ''next_page_token'',
      nodes = Some \<lparr>ordered = [''n1''], unOrdered = []\<rparr>\<rparr>
   \<and> removeNodeFromFilter Some ''n1'' sharedWithMeFilter
       (Some \<lparr>args = Some \<lparr>folder_id = None, shared_by_me = None, shared_with_me = Some True\<rparr>,
              page_token = Some ''next_page_token'',
              nodes = Some \<lparr>ordered = [''n1''], unOrdered = []\<rparr>\<rparr>) = DELETE
   \<and> folderListingOutsideTrash ''TRASH_ROOT''
       \<lparr>args = Some \<lparr>folder_id = Some ''f1'', shared_by_me = None, shared_with_me = None\<rparr>,
        page_token = Some ''next_page_token'',
        nodes = Some \<lparr>ordered = [''n1'', ''n2''], unOrdered = []\<rparr>\<rparr>
   \<and> trashNodes_findNodes ''TRASH_ROOT'' Some [''n1'']
       (Some \<lparr>args = Some \<lparr>folder_id = Some ''f1'', shared_by_me = None, shared_with_me = None\<rparr>,
              page_token = Some ''next_page_token'',
              nodes = Some \<lparr>ordered = [''n1'', ''n2''], unOrdered = []\<rparr>\<rparr>)
     = Value (Some \<lparr>args = Some \<lparr>folder_id = Some ''f1'', shared_by_me = None,
                                    shared_with_me = None\<rparr>,
                     page_token = Some ''next_page_token'',
                     nodes = Some \<lparr>ordered = [''n2''], unOrdered = []\<rparr>\<rparr>)"
  using findNodes_entry_deleted_or_rewritten
    [of sharedWithMeFilter
        "\<lparr>args = Some \<lparr>folder_id = None, shared_by_me = None, shared_with_me = Some True\<rparr>,
          page_token = Some ''next_page_token'',
          nodes = Some \<lparr>ordered = [''n1''], unOrdered = []\<rparr>\<rparr>"
        Some "''n1''" "''TRASH_ROOT''" "[''n1'']"]
    findNodes_entry_deleted_or_rewritten
    [of "\<lambda>_. True"
        "\<lparr>args = Some \<lparr>folder_id = Some ''f1'', shared_by_me = None, shared_with_me = None\<rparr>,
          page_token = Some ''next_page_token'',
          nodes = Some \<lparr>ordered = [''n1'', ''n2''], unOrdered = []\<rparr>\<rparr>"
        Some "''n1''" "''TRASH_ROOT''" "[''n1'']"]
  by (simp add: sharedWithMeFilter_def folderListingOutsideTrash_def notTrashed_def truthy_def
        removeNodeFromFilter_def trashNodes_findNodes_def)

text \<open>
  The claim as it is written speaks of a non-null token. The empty string is a non-null
  token, and it is falsy: a listing whose token is the empty string is kept, with two
  empty lists, when its only node is removed.
\<close>

theorem findNodes_empty_token_counterexample:
  "page_token \<lparr>args = None, page_token = Some [],
                nodes = Some \<lparr>ordered = [''x''], unOrdered = []\<rparr>\<rparr> \<noteq> None
   \<and> removeNodeFromFilter Some ''x'' (\<lambda>_. True)
       (Some \<lparr>args = None, page_token = Some [],
              nodes = Some \<lparr>ordered = [''x''], unOrdered = []\<rparr>\<rparr>)
     = Value (Some \<lparr>args = None, page_token = Some [],
                     nodes = Some \<lparr>ordered = [], unOrdered = []\<rparr>\<rparr>)
   \<and> removeNodeFromFilter Some ''x'' (\<lambda>_. True)
       (Some \<lparr>args = None, page_token = Some [],
              nodes = Some \<lparr>ordered = [''x''], unOrdered = []\<rparr>\<rparr>) \<noteq> DELETE"
  by (simp add: removeNodeFromFilter_def truthy_def)

lemma subseq_filter_left: "subseq (filter P xs) xs"
  by (induction xs) auto

text \<open>
  C5, as amended. Where the unshare modifier applies (the caller's filter accepts the
  listing) and rewrites the entry, each list keeps exactly the references whose id is
  not the removed one, in the order they had (the new list is a subsequence of the old
  one), the removed id is in neither list, and when the id was in neither list the
  entry is rewritten as it was: lists, \<open>args\<close> and \<open>page_token\<close>. The same holds for the
  trash modifier on the listing of a folder other than the trash, for the references
  that \<open>notTrashed\<close> keeps. No branch of either modifier raises. The entry is not rewritten
  but deleted when its token is truthy and no reference is left; with nothing to remove
  this happens only to an entry that held no reference at all.
\<close>

theorem removal_keeps_other_members_in_order:
  "(checkFilter e \<and> removeNodeFromFilter readField nodeId checkFilter (Some e) = Value (Some e')
      \<longrightarrow>
        nodes_ordered e' = filter (\<lambda>n. readField n \<noteq> Some nodeId) (nodes_ordered e)
      \<and> nodes_unOrdered e' = filter (\<lambda>n. readField n \<noteq> Some nodeId) (nodes_unOrdered e)
      \<and> subseq (nodes_ordered e') (nodes_ordered e)
      \<and> subseq (nodes_unOrdered e') (nodes_unOrdered e)
      \<and> Some nodeId \<notin> readField ` set (nodes_ordered e' @ nodes_unOrdered e')
      \<and> (Some nodeId \<notin> readField ` set (nodes_ordered e @ nodes_unOrdered e) \<longrightarrow>
            nodes_ordered e' = nodes_ordered e \<and> nodes_unOrdered e' = nodes_unOrdered e
          \<and> args e' = args e \<and> page_token e' = page_token e))
   \<and> (checkFilter e \<and> Some nodeId \<notin> readField ` set (nodes_ordered e @ nodes_unOrdered e)
        \<and> \<not> (truthy (page_token e) \<and> nodes_ordered e = [] \<and> nodes_unOrdered e = [])
      \<longrightarrow> removeNodeFromFilter readField nodeId checkFilter (Some e) =
            Value (Some \<lparr>args = args e, page_token = page_token e,
                          nodes = Some \<lparr>ordered = nodes_ordered e,
                                         unOrdered = nodes_unOrdered e\<rparr>\<rparr>))
   \<and> (folderListingOutsideTrash TRASH e
        \<and> trashNodes_findNodes TRASH readField trashedNodes (Some e) = Value (Some e')
      \<longrightarrow>
        nodes_ordered e' = filter (notTrashed readField trashedNodes) (nodes_ordered e)
      \<and> nodes_unOrdered e' = filter (notTrashed readField trashedNodes) (nodes_unOrdered e)
      \<and> subseq (nodes_ordered e') (nodes_ordered e)
      \<and> subseq (nodes_unOrdered e') (nodes_unOrdered e)
      \<and> (\<forall>i \<in> set trashedNodes. Some i \<notin> readField ` set (nodes_ordered e' @ nodes_unOrdered e'))
      \<and> ((\<forall>n \<in> set (nodes_ordered e @ nodes_unOrdered e). notTrashed readField trashedNodes n) \<longrightarrow>
            nodes_ordered e' = nodes_ordered e \<and> nodes_unOrdered e' = nodes_unOrdered e
          \<and> args e' = args e \<and> page_token e' = page_token e))
   \<and> (folderListingOutsideTrash TRASH e
        \<and> (\<forall>n \<in> set (nodes_ordered e @ nodes_unOrdered e). notTrashed readField trashedNodes n)
        \<and> \<not> (truthy (page_token e) \<and> nodes_ordered e = [] \<and> nodes_unOrdered e = [])
      \<longrightarrow> trashNodes_findNodes TRASH readField trashedNodes (Some e) =
            Value (Some \<lparr>args = args e, page_token = page_token e,
                          nodes = Some \<lparr>ordered = nodes_ordered e,
                                         unOrdered = nodes_unOrdered e\<rparr>\<rparr>))"
proof -
  have neq: "(\<lambda>n. Some nodeId \<noteq> readField n) = (\<lambda>n. readField n \<noteq> Some nodeId)"
    by auto
  have absent: "filter (\<lambda>n. readField n \<noteq> Some nodeId) xs = xs"
    if "Some nodeId \<notin> readField ` set xs" for xs
    using that by (induction xs) auto
  have kept: "filter (notTrashed readField trashedNodes) xs = xs"
    if "\<forall>n \<in> set xs. notTrashed readField trashedNodes n" for xs
    using that by (induction xs) auto
  have gone: "Some i \<notin> readField ` set (filter (notTrashed readField trashedNodes) xs)"
    if "i \<in> set trashedNodes" for i xs
    using that by (auto simp: notTrashed_def split: option.splits)
  have u1: "checkFilter e \<and> removeNodeFromFilter readField nodeId checkFilter (Some e) = Value (Some e')
      \<longrightarrow>
        nodes_ordered e' = filter (\<lambda>n. readField n \<noteq> Some nodeId) (nodes_ordered e)
      \<and> nodes_unOrdered e' = filter (\<lambda>n. readField n \<noteq> Some nodeId) (nodes_unOrdered e)
      \<and> args e' = args e \<and> page_token e' = page_token e"
    by (auto simp: removeNodeFromFilter_Some neq split: if_splits)
  have u2: "checkFilter e \<and> Some nodeId \<notin> readField ` set (nodes_ordered e @ nodes_unOrdered e)
        \<and> \<not> (truthy (page_token e) \<and> nodes_ordered e = [] \<and> nodes_unOrdered e = [])
      \<longrightarrow> removeNodeFromFilter readField nodeId checkFilter (Some e) =
            Value (Some \<lparr>args = args e, page_token = page_token e,
                          nodes = Some \<lparr>ordered = nodes_ordered e,
                                         unOrdered = nodes_unOrdered e\<rparr>\<rparr>)"
    using absent [of "nodes_ordered e"] absent [of "nodes_unOrdered e"]
    by (auto simp: removeNodeFromFilter_Some neq image_Un)
  have t1: "folderListingOutsideTrash TRASH e
        \<and> trashNodes_findNodes TRASH readField trashedNodes (Some e) = Value (Some e')
      \<longrightarrow>
        nodes_ordered e' = filter (notTrashed readField trashedNodes) (nodes_ordered e)
      \<and> nodes_unOrdered e' = filter (notTrashed readField trashedNodes) (nodes_unOrdered e)
      \<and> args e' = args e \<and> page_token e' = page_token e"
    by (auto simp: trashNodes_findNodes_Some split: if_splits)
  have t2: "folderListingOutsideTrash TRASH e
        \<and> (\<forall>n \<in> set (nodes_ordered e @ nodes_unOrdered e). notTrashed readField trashedNodes n)
        \<and> \<not> (truthy (page_token e) \<and> nodes_ordered e = [] \<and> nodes_unOrdered e = [])
      \<longrightarrow> trashNodes_findNodes TRASH readField trashedNodes (Some e) =
            Value (Some \<lparr>args = args e, page_token = page_token e,
                          nodes = Some \<lparr>ordered = nodes_ordered e,
                                         unOrdered = nodes_unOrdered e\<rparr>\<rparr>)"
    using kept [of "nodes_ordered e"] kept [of "nodes_unOrdered e"]
    by (auto simp: trashNodes_findNodes_Some)
  show ?thesis
  proof (intro conjI impI)
    assume a: "checkFilter e \<and>
      removeNodeFromFilter readField nodeId checkFilter (Some e) = Value (Some e')"
    with u1 show o: "nodes_ordered e' = filter (\<lambda>n. readField n \<noteq> Some nodeId) (nodes_ordered e)"
      and u: "nodes_unOrdered e' = filter (\<lambda>n. readField n \<noteq> Some nodeId) (nodes_unOrdered e)"
      by blast+
    show "subseq (nodes_ordered e') (nodes_ordered e)"
      unfolding o by (rule subseq_filter_left)
    show "subseq (nodes_unOrdered e') (nodes_unOrdered e)"
      unfolding u by (rule subseq_filter_left)
    show "Some nodeId \<notin> readField ` set (nodes_ordered e' @ nodes_unOrdered e')"
      unfolding o u by auto
    assume b: "Some nodeId \<notin> readField ` set (nodes_ordered e @ nodes_unOrdered e)"
    from b absent [of "nodes_ordered e"] show "nodes_ordered e' = nodes_ordered e"
      unfolding o by (simp add: image_Un)
    from b absent [of "nodes_unOrdered e"] show "nodes_unOrdered e' = nodes_unOrdered e"
      unfolding u by (simp add: image_Un)
    from a u1 show "args e' = args e" and "page_token e' = page_token e"
      by blast+
  next
    assume "checkFilter e \<and> Some nodeId \<notin> readField ` set (nodes_ordered e @ nodes_unOrdered e)
        \<and> \<not> (truthy (page_token e) \<and> nodes_ordered e = [] \<and> nodes_unOrdered e = [])"
    with u2 show "removeNodeFromFilter readField nodeId checkFilter (Some e) =
            Value (Some \<lparr>args = args e, page_token = page_token e,
                          nodes = Some \<lparr>ordered = nodes_ordered e,
                                         unOrdered = nodes_unOrdered e\<rparr>\<rparr>)"
      by blast
  next
    assume a: "folderListingOutsideTrash TRASH e
        \<and> trashNodes_findNodes TRASH readField trashedNodes (Some e) = Value (Some e')"
    with t1 show o: "nodes_ordered e' = filter (notTrashed readField trashedNodes) (nodes_ordered e)"
      and u: "nodes_unOrdered e' = filter (notTrashed readField trashedNodes) (nodes_unOrdered e)"
      by blast+
    show "subseq (nodes_ordered e') (nodes_ordered e)"
      unfolding o by (rule subseq_filter_left)
    show "subseq (nodes_unOrdered e') (nodes_unOrdered e)"
      unfolding u by (rule subseq_filter_left)
    show "\<forall>i \<in> set trashedNodes. Some i \<notin> readField ` set (nodes_ordered e' @ nodes_unOrdered e')"
      unfolding o u using gone by (auto simp: image_Un)
    assume b: "\<forall>n \<in> set (nodes_ordered e @ nodes_unOrdered e). notTrashed readField trashedNodes n"
    from b kept [of "nodes_ordered e"] show "nodes_ordered e' = nodes_ordered e"
      unfolding o by simp
    from b kept [of "nodes_unOrdered e"] show "nodes_unOrdered e' = nodes_unOrdered e"
      unfolding u by simp
    from a t1 show "args e' = args e" and "page_token e' = page_token e"
      by blast+
  next
    assume "folderListingOutsideTrash TRASH e
        \<and> (\<forall>n \<in> set (nodes_ordered e @ nodes_unOrdered e). notTrashed readField trashedNodes n)
        \<and> \<not> (truthy (page_token e) \<and> nodes_ordered e = [] \<and> nodes_unOrdered e = [])"
    with t2 show "trashNodes_findNodes TRASH readField trashedNodes (Some e) =
            Value (Some \<lparr>args = args e, page_token = page_token e,
                          nodes = Some \<lparr>ordered = nodes_ordered e,
                                         unOrdered = nodes_unOrdered e\<rparr>\<rparr>)"
      by blast
  qed
qed

text \<open>
  The theorem at the listing \<open>ordered = [A, B]\<close>, \<open>unOrdered = [C]\<close> of a folder, with a
  token: unsharing \<open>B\<close> leaves \<open>[A]\<close> and \<open>[C]\<close>, trashing \<open>C\<close> leaves \<open>[A, B]\<close> and \<open>[]\<close>, and
  removing the absent \<open>D\<close> rewrites the entry as it was.
\<close>

theorem removal_keeps_other_members_in_order_witness:
  "removeNodeFromFilter Some ''B'' (\<lambda>_. True)
     (Some \<lparr>args = Some \<lparr>folder_id = Some ''f1'', shared_by_me = None, shared_with_me = None\<rparr>,
            page_token = Some ''next_page_token'',
            nodes = Some \<lparr>ordered = [''A'', ''B''], unOrdered = [''C'']\<rparr>\<rparr>)
     = Value (Some \<lparr>args = Some \<lparr>folder_id = Some ''f1'', shared_by_me = None,
                                    shared_with_me = None\<rparr>,
                     page_token = Some ''next_page_token'',
                     nodes = Some \<lparr>ordered = [''A''], unOrdered = [''C'']\<rparr>\<rparr>)
   \<and> subseq [''A''] [''A'', ''B'']
   \<and> Some ''B'' \<notin> Some ` set ([''A''] @ [''C''])
   \<and> removeNodeFromFilter Some ''D'' (\<lambda>_. True)
     (Some \<lparr>args = Some \<lparr>folder_id = Some ''f1'', shared_by_me = None, shared_with_me = None\<rparr>,
            page_token = Some ''next_page_token'',
            nodes = Some \<lparr>ordered = [''A'', ''B''], unOrdered = [''C'']\<rparr>\<rparr>)
     = Value (Some \<lparr>args = Some \<lparr>folder_id = Some ''f1'', shared_by_me = None,
                                    shared_with_me = None\<rparr>,
                     page_token = Some ''next_page_token'',
                     nodes = Some \<lparr>ordered = [''A'', ''B''], unOrdered = [''C'']\<rparr>\<rparr>)
   \<and> folderListingOutsideTrash ''TRASH_ROOT''
       \<lparr>args = Some \<lparr>folder_id = Some ''f1'', shared_by_me = None, shared_with_me = None\<rparr>,
        page_token = Some ''next_page_token'',
        nodes = Some \<lparr>ordered = [''A'', ''B''], unOrdered = [''C'']\<rparr>\<rparr>
   \<and> trashNodes_findNodes ''TRASH_ROOT'' Some [''C'']
     (Some \<lparr>args = Some \<lparr>folder_id = Some ''f1'', shared_by_me = None, shared_with_me = None\<rparr>,
            page_token = Some ''next_page_token'',
            nodes = Some \<lparr>ordered = [''A'', ''B''], unOrdered = [''C'']\<rparr>\<rparr>)
     = Value (Some \<lparr>args = Some \<lparr>folder_id = Some ''f1'', shared_by_me = None,
                                    shared_with_me = None\<rparr>,
                     page_token = Some ''next_page_token'',
                     nodes = Some \<lparr>ordered = [''A'', ''B''], unOrdered = []\<rparr>\<rparr>)"
  using removal_keeps_other_members_in_order
    [where checkFilter = "\<lambda>_. True" and readField = Some and nodeId = "''B''"
       and TRASH = "''TRASH_ROOT''" and trashedNodes = "[''C'']"
       and e = "\<lparr>args = Some \<lparr>folder_id = Some ''f1'', shared_by_me = None,
                                 shared_with_me = None\<rparr>,
                  page_token = Some ''next_page_token'',
                  nodes = Some \<lparr>ordered = [''A'', ''B''], unOrdered = [''C'']\<rparr>\<rparr>"
       and e' = "\<lparr>args = Some \<lparr>folder_id = Some ''f1'', shared_by_me = None,
                                  shared_with_me = None\<rparr>,
                   page_token = Some ''next_page_token'',
                   nodes = Some \<lparr>ordered = [''A''], unOrdered = [''C'']\<rparr>\<rparr>"]
    removal_keeps_other_members_in_order
    [where checkFilter = "\<lambda>_. True" and readField = Some and nodeId = "''D''"
       and TRASH = "''TRASH_ROOT''" and trashedNodes = "[''C'']"
       and e = "\<lparr>args = Some \<lparr>folder_id = Some ''f1'', shared_by_me = None,
                                 shared_with_me = None\<rparr>,
                  page_token = Some ''next_page_token'',
                  nodes = Some \<lparr>ordered = [''A'', ''B''], unOrdered = [''C'']\<rparr>\<rparr>"
       and e' = "\<lparr>args = Some \<lparr>folder_id = Some ''f1'', shared_by_me = None,
                                  shared_with_me = None\<rparr>,
                   page_token = Some ''next_page_token'',
                   nodes = Some \<lparr>ordered = [''A'', ''B''], unOrdered = []\<rparr>\<rparr>"]
  by (simp add: removeNodeFromFilter_def trashNodes_findNodes_def folderListingOutsideTrash_def
        notTrashed_def truthy_def)

text \<open>
  The claim as it is written makes the removal of an absent id a no-op. A listing with a
  token and no node is deleted by it: the modifier returns \<open>DELETE\<close>, not the entry.
\<close>

theorem removal_of_absent_id_counterexample:
  "Some ''x'' \<notin> Some ` set
       (nodes_ordered \<lparr>args = None, page_token = Some ''next_page_token'',
                       nodes = Some \<lparr>ordered = [], unOrdered = []\<rparr>\<rparr>
      @ nodes_unOrdered \<lparr>args = None, page_token = Some ''next_page_token'',
                         nodes = Some \<lparr>ordered = ([] :: string list), unOrdered = []\<rparr>\<rparr>)
   \<and> removeNodeFromFilter Some ''x'' (\<lambda>_. True)
       (Some \<lparr>args = None, page_token = Some ''next_page_token'',
              nodes = Some \<lparr>ordered = [], unOrdered = []\<rparr>\<rparr>) = DELETE
   \<and> removeNodeFromFilter Some ''x'' (\<lambda>_. True)
       (Some \<lparr>args = None, page_token = Some ''next_page_token'',
              nodes = Some \<lparr>ordered = [], unOrdered = []\<rparr>\<rparr>)
     \<noteq> Value (Some \<lparr>args = None, page_token = Some ''next_page_token'',
                      nodes = Some \<lparr>ordered = [], unOrdered = []\<rparr>\<rparr>)"
  by (simp add: removeNodeFromFilter_def truthy_def)

section \<open>The comparator is a total preorder\<close>

lemma three_way_le: "(three_way x y \<le> 0) = (x \<le> y)"
  by (auto simp: three_way_def)

lemma three_way_eq0: "(three_way x y = 0) = (x = y)"
  by (auto simp: three_way_def)

lemma three_way_lt: "(three_way x y < 0) = (x < y)"
  by (auto simp: three_way_def)

lemma compareByKey_flip: "compareByKey k b a = - compareByKey k a b"
  by (cases k) (auto simp: three_way_def)

lemma compareByKey_eq0_trans:
  "compareByKey k a b = 0 \<Longrightarrow> compareByKey k b c = 0 \<Longrightarrow> compareByKey k a c = 0"
  by (cases k) (auto simp: three_way_eq0)

lemma compareByKey_lt_le_trans:
  "compareByKey k a b < 0 \<Longrightarrow> compareByKey k b c \<le> 0 \<Longrightarrow> compareByKey k a c < 0"
  by (cases k) (auto simp: three_way_le three_way_lt)

lemma compareByKey_le_lt_trans:
  "compareByKey k a b \<le> 0 \<Longrightarrow> compareByKey k b c < 0 \<Longrightarrow> compareByKey k a c < 0"
  by (cases k) (auto simp: three_way_le three_way_lt)

lemma compareNodes_flip: "compareNodes b a ks = - compareNodes a b ks"
proof (induction ks)
  case Nil
  show ?case by (auto simp: three_way_def)
next
  case (Cons k ks)
  have "compareByKey k b a = - compareByKey k a b" by (rule compareByKey_flip)
  with Cons show ?case by simp
qed

lemma compareNodes_trans:
  "compareNodes a b ks \<le> 0 \<Longrightarrow> compareNodes b c ks \<le> 0 \<Longrightarrow> compareNodes a c ks \<le> 0"
proof (induction ks)
  case Nil
  then show ?case by (auto simp: three_way_le)
next
  case (Cons k ks)
  consider "compareByKey k a b < 0" | "compareByKey k a b = 0" | "compareByKey k a b > 0"
    by linarith
  then show ?case
  proof cases
    case 1
    with Cons.prems(2) have "compareByKey k b c \<le> 0"
      by (auto split: if_splits)
    with 1 have "compareByKey k a c < 0" by (rule compareByKey_lt_le_trans)
    then show ?thesis by simp
  next
    case 2
    consider "compareByKey k b c < 0" | "compareByKey k b c = 0" | "compareByKey k b c > 0"
      by linarith
    then show ?thesis
    proof cases
      case 1
      with 2 have "compareByKey k a c < 0"
        using compareByKey_le_lt_trans [of k a b c] by simp
      then show ?thesis by simp
    next
      case b2: 2
      with 2 have "compareByKey k a c = 0" by (simp add: compareByKey_eq0_trans)
      with 2 b2 Cons show ?thesis by simp
    next
      case 3
      with Cons.prems(2) show ?thesis by simp
    qed
  next
    case 3
    with Cons.prems(1) show ?thesis by simp
  qed
qed

lemma compareNodes_total: "compareNodes a b ks \<le> 0 \<or> compareNodes b a ks \<le> 0"
  using compareNodes_flip [of b a ks] by linarith

section \<open>The sort of the mocks\<close>

lemma set_insertSorted: "set (insertSorted c x xs) = insert x (set xs)"
  by (induction xs) auto

lemma mset_insertSorted: "mset (insertSorted c x xs) = add_mset x (mset xs)"
  by (induction xs) auto

lemma mset_arraySort: "mset (arraySort c xs) = mset xs"
  unfolding arraySort_def by (induction xs) (simp_all add: mset_insertSorted)

lemma insertSorted_map_Some:
  "(\<And>a b. c (Some a) (Some b) = d a b) \<Longrightarrow>
   insertSorted c (Some x) (map Some xs) = map Some (insertSorted d x xs)"
  by (induction xs) auto

lemma arraySort_map_Some:
  assumes "\<And>a b. c (Some a) (Some b) = d a b"
  shows "arraySort c (map Some xs) = map Some (arraySort d xs)"
  unfolding arraySort_def
  by (induction xs) (simp_all add: insertSorted_map_Some [of c d, OF assms])

lemma sortNodes_map_Some:
  "sortNodes onNull (map Some nodeList) s
     = map Some (arraySort (\<lambda>a b. compareNodes a b (sortsList s)) nodeList)"
  unfolding sortNodes_def
  by (rule arraySort_map_Some) (simp add: nodeSortComparator_def)

lemma sorted_insertSorted:
  assumes tr: "\<And>x y z. c x y \<le> 0 \<Longrightarrow> c y z \<le> 0 \<Longrightarrow> c x z \<le> 0"
    and tot: "\<And>x y. c x y \<le> 0 \<or> c y x \<le> 0"
    and s: "sorted_wrt (\<lambda>a b. c a b \<le> 0) xs"
  shows "sorted_wrt (\<lambda>a b. c a b \<le> 0) (insertSorted c x xs)"
  using s
proof (induction xs)
  case Nil
  show ?case by simp
next
  case (Cons y ys)
  show ?case
  proof (cases "c x y \<le> 0")
    case True
    with Cons.prems tr show ?thesis by auto
  next
    case False
    with tot have "c y x \<le> 0" by blast
    with False Cons show ?thesis by (auto simp: set_insertSorted)
  qed
qed

lemma sorted_arraySort:
  assumes tr: "\<And>x y z. c x y \<le> 0 \<Longrightarrow> c y z \<le> 0 \<Longrightarrow> c x z \<le> 0"
    and tot: "\<And>x y. c x y \<le> 0 \<or> c y x \<le> 0"
  shows "sorted_wrt (\<lambda>a b. c a b \<le> 0) (arraySort c xs)"
  unfolding arraySort_def
proof (induction xs)
  case Nil
  show ?case by simp
next
  case (Cons x xs)
  from sorted_insertSorted [of c "foldr (insertSorted c) xs []" x, OF tr tot Cons]
  show ?case by simp
qed

lemma sorted_arraySort_compareNodes:
  "sorted_wrt (\<lambda>a b. compareNodes a b ks \<le> 0) (arraySort (\<lambda>a b. compareNodes a b ks) xs)"
proof (rule sorted_arraySort)
  show "compareNodes x z ks \<le> 0"
    if "compareNodes x y ks \<le> 0" "compareNodes y z ks \<le> 0" for x y z
    using that by (rule compareNodes_trans)
  show "compareNodes x y ks \<le> 0 \<or> compareNodes y x ks \<le> 0" for x y
    by (rule compareNodes_total)
qed

lemma sorted_wrt_partition:
  assumes "sorted_wrt R xs" and "\<And>a b. R a b \<Longrightarrow> P b \<Longrightarrow> P a"
  shows "xs = filter P xs @ filter (\<lambda>x. \<not> P x) xs"
  using assms(1)
proof (induction xs)
  case Nil
  show ?case by simp
next
  case (Cons x xs)
  then have ih: "xs = filter P xs @ filter (\<lambda>x. \<not> P x) xs" by simp
  show ?case
  proof (cases "P x")
    case True
    with ih show ?thesis by simp
  next
    case False
    have "\<not> P y" if "y \<in> set xs" for y
      using Cons.prems that assms(2) [of x y] False by auto
    then have "filter P xs = []" by (simp add: filter_empty_conv)
    moreover from this ih have "filter (\<lambda>x. \<not> P x) xs = xs" by simp
    ultimately show ?thesis using False by simp
  qed
qed

lemma typeAsc_first:
  "folderLike a \<Longrightarrow> \<not> folderLike b \<Longrightarrow> compareNodes a b (TypeAsc # ks) = - 1"
  "\<not> folderLike a \<Longrightarrow> folderLike b \<Longrightarrow> compareNodes a b (TypeAsc # ks) = 1"
  "folderLike a = folderLike b \<Longrightarrow> compareNodes a b (TypeAsc # ks) = compareNodes a b ks"
  by (auto simp: three_way_def typeRank_def)

lemma not_size_sortsList: "s \<noteq> SizeAsc \<Longrightarrow> s \<noteq> SizeDesc \<Longrightarrow> sortsList s = [TypeAsc, s]"
  by (simp add: sortsList_def)

lemma compareByKey_size_type:
  "s = SizeAsc \<or> s = SizeDesc \<Longrightarrow>
   compareByKey s (a\<lparr>node_type := t\<rparr>) (b\<lparr>node_type := u\<rparr>) = compareByKey s a b"
  by (auto simp: sizeOrZero_def)

text \<open>What a list sorted by one key says of the field of that key.\<close>

lemma field_order:
  "compareNodes x y [NameAsc] \<le> 0 \<Longrightarrow> toLowerCase (name x) \<le> toLowerCase (name y)"
  "compareNodes x y [NameDesc] \<le> 0 \<Longrightarrow> toLowerCase (name y) \<le> toLowerCase (name x)"
  "compareNodes x y [UpdatedAtAsc] \<le> 0 \<Longrightarrow> updatedAtOrZero x \<le> updatedAtOrZero y"
  "compareNodes x y [UpdatedAtDesc] \<le> 0 \<Longrightarrow> updatedAtOrZero y \<le> updatedAtOrZero x"
  "compareNodes x y [SizeAsc] \<le> 0 \<Longrightarrow> sizeOrZero x \<le> sizeOrZero y"
  "compareNodes x y [SizeDesc] \<le> 0 \<Longrightarrow> sizeOrZero y \<le> sizeOrZero x"
  by (auto simp: three_way_def split: if_splits)

text \<open>The sorted list of a non-size sort: the folder-like nodes, then the others, each part
  sorted by the key of the sort alone.\<close>

lemma type_then_key:
  assumes ns: "s \<noteq> SizeAsc" "s \<noteq> SizeDesc"
    and R_def: "R = arraySort (\<lambda>a b. compareNodes a b (sortsList s)) nodeList"
  shows "R = filter folderLike R @ filter (\<lambda>n. \<not> folderLike n) R"
    and "sorted_wrt (\<lambda>x y. compareNodes x y [s] \<le> 0) (filter folderLike R)"
    and "sorted_wrt (\<lambda>x y. compareNodes x y [s] \<le> 0) (filter (\<lambda>n. \<not> folderLike n) R)"
proof -
  from ns have l: "sortsList s = [TypeAsc, s]" by (rule not_size_sortsList)
  have srt: "sorted_wrt (\<lambda>x y. compareNodes x y [TypeAsc, s] \<le> 0) R"
    unfolding R_def l by (rule sorted_arraySort_compareNodes)
  have down: "folderLike x" if "compareNodes x y [TypeAsc, s] \<le> 0" "folderLike y" for x y
    using that typeAsc_first(2) [of x y "[s]"] by auto
  from srt down show "R = filter folderLike R @ filter (\<lambda>n. \<not> folderLike n) R"
    by (rule sorted_wrt_partition)
  from srt have "sorted_wrt (\<lambda>x y. compareNodes x y [TypeAsc, s] \<le> 0) (filter folderLike R)"
    by (rule sorted_wrt_filter)
  then show "sorted_wrt (\<lambda>x y. compareNodes x y [s] \<le> 0) (filter folderLike R)"
    by (rule sorted_wrt_mono_rel [rotated]) (simp only: typeAsc_first(3) set_filter mem_Collect_eq)
  from srt have "sorted_wrt (\<lambda>x y. compareNodes x y [TypeAsc, s] \<le> 0)
      (filter (\<lambda>n. \<not> folderLike n) R)"
    by (rule sorted_wrt_filter)
  then show "sorted_wrt (\<lambda>x y. compareNodes x y [s] \<le> 0) (filter (\<lambda>n. \<not> folderLike n) R)"
    by (rule sorted_wrt_mono_rel [rotated]) (simp only: typeAsc_first(3) set_filter mem_Collect_eq)
qed

text \<open>
  C7, as amended. \<open>sortNodes\<close> returns the elements it is given, reordered. On a list of
  nodes, under a sort other than the size sorts, the keys are \<open>TypeAsc\<close> then the sort: a
  folder-like node compares before a node that is not, whatever the other fields and
  whatever the direction of the sort, so that the result is the folder-like nodes
  followed by the others; two nodes of the same kind compare by the chosen field, in the
  direction of the sort, and each of the two parts of the result is in the order of
  that field (names without regard to case, an absent time of update counting as 0).
  Under \<open>SizeAsc\<close> or \<open>SizeDesc\<close> the key list is the size sort alone: the comparison does not
  change when the types of the two nodes do, the smaller size compares first (last when
  descending), an absent size counting as 0, and the result is in the order of the sizes.
\<close>

theorem sortNodes_folders_first_then_field:
  "mset (sortNodes onNull anyList s) = mset anyList
   \<and> (\<exists>R. sortNodes onNull (map Some nodeList) s = map Some R
          \<and> mset R = mset nodeList
          \<and> (s = SizeAsc \<longrightarrow> sorted_wrt (\<lambda>x y. sizeOrZero x \<le> sizeOrZero y) R)
          \<and> (s = SizeDesc \<longrightarrow> sorted_wrt (\<lambda>x y. sizeOrZero y \<le> sizeOrZero x) R)
          \<and> (s \<noteq> SizeAsc \<and> s \<noteq> SizeDesc \<longrightarrow>
                R = filter folderLike R @ filter (\<lambda>n. \<not> folderLike n) R)
          \<and> (s = NameAsc \<longrightarrow>
                sorted_wrt (\<lambda>x y. toLowerCase (name x) \<le> toLowerCase (name y))
                  (filter folderLike R)
              \<and> sorted_wrt (\<lambda>x y. toLowerCase (name x) \<le> toLowerCase (name y))
                  (filter (\<lambda>n. \<not> folderLike n) R))
          \<and> (s = NameDesc \<longrightarrow>
                sorted_wrt (\<lambda>x y. toLowerCase (name y) \<le> toLowerCase (name x))
                  (filter folderLike R)
              \<and> sorted_wrt (\<lambda>x y. toLowerCase (name y) \<le> toLowerCase (name x))
                  (filter (\<lambda>n. \<not> folderLike n) R))
          \<and> (s = UpdatedAtAsc \<longrightarrow>
                sorted_wrt (\<lambda>x y. updatedAtOrZero x \<le> updatedAtOrZero y) (filter folderLike R)
              \<and> sorted_wrt (\<lambda>x y. updatedAtOrZero x \<le> updatedAtOrZero y)
                  (filter (\<lambda>n. \<not> folderLike n) R))
          \<and> (s = UpdatedAtDesc \<longrightarrow>
                sorted_wrt (\<lambda>x y. updatedAtOrZero y \<le> updatedAtOrZero x) (filter folderLike R)
              \<and> sorted_wrt (\<lambda>x y. updatedAtOrZero y \<le> updatedAtOrZero x)
                  (filter (\<lambda>n. \<not> folderLike n) R)))
   \<and> (s = SizeAsc \<or> s = SizeDesc \<longrightarrow>
          sortsList s = [s]
        \<and> nodeSortComparator onNull (Some (a\<lparr>node_type := t\<rparr>)) (Some (b\<lparr>node_type := u\<rparr>))
              (sortsList s)
            = nodeSortComparator onNull (Some a) (Some b) (sortsList s))
   \<and> (sizeOrZero a < sizeOrZero b \<longrightarrow>
          nodeSortComparator onNull (Some a) (Some b) (sortsList SizeAsc) = - 1
        \<and> nodeSortComparator onNull (Some a) (Some b) (sortsList SizeDesc) = 1)
   \<and> (s \<noteq> SizeAsc \<and> s \<noteq> SizeDesc \<longrightarrow>
          sortsList s = [TypeAsc, s]
        \<and> (folderLike a \<and> \<not> folderLike b \<longrightarrow>
              nodeSortComparator onNull (Some a) (Some b) (sortsList s) = - 1
            \<and> nodeSortComparator onNull (Some b) (Some a) (sortsList s) = 1))
   \<and> (folderLike a = folderLike b \<and> toLowerCase (name a) < toLowerCase (name b) \<longrightarrow>
          nodeSortComparator onNull (Some a) (Some b) (sortsList NameAsc) = - 1
        \<and> nodeSortComparator onNull (Some a) (Some b) (sortsList NameDesc) = 1)
   \<and> (folderLike a = folderLike b \<and> updatedAtOrZero a < updatedAtOrZero b \<longrightarrow>
          nodeSortComparator onNull (Some a) (Some b) (sortsList UpdatedAtAsc) = - 1
        \<and> nodeSortComparator onNull (Some a) (Some b) (sortsList UpdatedAtDesc) = 1)"
proof -
  define R where "R = arraySort (\<lambda>a b. compareNodes a b (sortsList s)) nodeList"
  have N: "nodeSortComparator onNull (Some x) (Some y) ks = compareNodes x y ks" for x y ks
    by (simp add: nodeSortComparator_def)
  have perm: "mset (sortNodes onNull anyList s) = mset anyList"
    unfolding sortNodes_def by (rule mset_arraySort)
  have res: "sortNodes onNull (map Some nodeList) s = map Some R"
    unfolding R_def by (rule sortNodes_map_Some)
  have permR: "mset R = mset nodeList"
    unfolding R_def by (rule mset_arraySort)
  have srt: "sorted_wrt (\<lambda>x y. compareNodes x y (sortsList s) \<le> 0) R"
    unfolding R_def by (rule sorted_arraySort_compareNodes)
  have sizeAsc: "sorted_wrt (\<lambda>x y. sizeOrZero x \<le> sizeOrZero y) R" if "s = SizeAsc"
    using srt unfolding that
    by (rule sorted_wrt_mono_rel [rotated]) (simp add: sortsList_def field_order(5))
  have sizeDesc: "sorted_wrt (\<lambda>x y. sizeOrZero y \<le> sizeOrZero x) R" if "s = SizeDesc"
    using srt unfolding that
    by (rule sorted_wrt_mono_rel [rotated]) (simp add: sortsList_def field_order(6))
  have part: "R = filter folderLike R @ filter (\<lambda>n. \<not> folderLike n) R"
    if "s \<noteq> SizeAsc \<and> s \<noteq> SizeDesc"
    using that type_then_key(1) [OF _ _ R_def] by blast
  have parts: "sorted_wrt (\<lambda>x y. compareNodes x y [s] \<le> 0) (filter folderLike R)
      \<and> sorted_wrt (\<lambda>x y. compareNodes x y [s] \<le> 0) (filter (\<lambda>n. \<not> folderLike n) R)"
    if "s \<noteq> SizeAsc" "s \<noteq> SizeDesc"
    using type_then_key(2,3) [OF that R_def] by blast
  have nameAsc: "sorted_wrt (\<lambda>x y. toLowerCase (name x) \<le> toLowerCase (name y))
        (filter folderLike R)
      \<and> sorted_wrt (\<lambda>x y. toLowerCase (name x) \<le> toLowerCase (name y))
        (filter (\<lambda>n. \<not> folderLike n) R)"
    if "s = NameAsc"
    using parts unfolding that
    by (blast intro: sorted_wrt_mono_rel [rotated] field_order(1))
  have nameDesc: "sorted_wrt (\<lambda>x y. toLowerCase (name y) \<le> toLowerCase (name x))
        (filter folderLike R)
      \<and> sorted_wrt (\<lambda>x y. toLowerCase (name y) \<le> toLowerCase (name x))
        (filter (\<lambda>n. \<not> folderLike n) R)"
    if "s = NameDesc"
    using parts unfolding that
    by (blast intro: sorted_wrt_mono_rel [rotated] field_order(2))
  have updAsc: "sorted_wrt (\<lambda>x y. updatedAtOrZero x \<le> updatedAtOrZero y) (filter folderLike R)
      \<and> sorted_wrt (\<lambda>x y. updatedAtOrZero x \<le> updatedAtOrZero y)
        (filter (\<lambda>n. \<not> folderLike n) R)"
    if "s = UpdatedAtAsc"
    using parts unfolding that
    by (blast intro: sorted_wrt_mono_rel [rotated] field_order(3))
  have updDesc: "sorted_wrt (\<lambda>x y. updatedAtOrZero y \<le> updatedAtOrZero x) (filter folderLike R)
      \<and> sorted_wrt (\<lambda>x y. updatedAtOrZero y \<le> updatedAtOrZero x)
        (filter (\<lambda>n. \<not> folderLike n) R)"
    if "s = UpdatedAtDesc"
    using parts unfolding that
    by (blast intro: sorted_wrt_mono_rel [rotated] field_order(4))
  have list: "\<exists>R. sortNodes onNull (map Some nodeList) s = map Some R
          \<and> mset R = mset nodeList
          \<and> (s = SizeAsc \<longrightarrow> sorted_wrt (\<lambda>x y. sizeOrZero x \<le> sizeOrZero y) R)
          \<and> (s = SizeDesc \<longrightarrow> sorted_wrt (\<lambda>x y. sizeOrZero y \<le> sizeOrZero x) R)
          \<and> (s \<noteq> SizeAsc \<and> s \<noteq> SizeDesc \<longrightarrow>
                R = filter folderLike R @ filter (\<lambda>n. \<not> folderLike n) R)
          \<and> (s = NameAsc \<longrightarrow>
                sorted_wrt (\<lambda>x y. toLowerCase (name x) \<le> toLowerCase (name y))
                  (filter folderLike R)
              \<and> sorted_wrt (\<lambda>x y. toLowerCase (name x) \<le> toLowerCase (name y))
                  (filter (\<lambda>n. \<not> folderLike n) R))
          \<and> (s = NameDesc \<longrightarrow>
                sorted_wrt (\<lambda>x y. toLowerCase (name y) \<le> toLowerCase (name x))
                  (filter folderLike R)
              \<and> sorted_wrt (\<lambda>x y. toLowerCase (name y) \<le> toLowerCase (name x))
                  (filter (\<lambda>n. \<not> folderLike n) R))
          \<and> (s = UpdatedAtAsc \<longrightarrow>
                sorted_wrt (\<lambda>x y. updatedAtOrZero x \<le> updatedAtOrZero y) (filter folderLike R)
              \<and> sorted_wrt (\<lambda>x y. updatedAtOrZero x \<le> updatedAtOrZero y)
                  (filter (\<lambda>n. \<not> folderLike n) R))
          \<and> (s = UpdatedAtDesc \<longrightarrow>
                sorted_wrt (\<lambda>x y. updatedAtOrZero y \<le> updatedAtOrZero x) (filter folderLike R)
              \<and> sorted_wrt (\<lambda>x y. updatedAtOrZero y \<le> updatedAtOrZero x)
                  (filter (\<lambda>n. \<not> folderLike n) R))"
    using res permR sizeAsc sizeDesc part nameAsc nameDesc updAsc updDesc
    by (intro exI [of _ R] conjI impI) blast+
  have sizeKeys: "s = SizeAsc \<or> s = SizeDesc \<longrightarrow>
          sortsList s = [s]
        \<and> nodeSortComparator onNull (Some (a\<lparr>node_type := t\<rparr>)) (Some (b\<lparr>node_type := u\<rparr>))
              (sortsList s)
            = nodeSortComparator onNull (Some a) (Some b) (sortsList s)"
    unfolding N using compareByKey_size_type [where s = s and a = a and t = t and b = b and u = u]
    by (auto simp: sortsList_def)
  have sizePair: "sizeOrZero a < sizeOrZero b \<longrightarrow>
          nodeSortComparator onNull (Some a) (Some b) (sortsList SizeAsc) = - 1
        \<and> nodeSortComparator onNull (Some a) (Some b) (sortsList SizeDesc) = 1"
    unfolding N by (simp add: sortsList_def three_way_def)
  have typeFirst: "s \<noteq> SizeAsc \<and> s \<noteq> SizeDesc \<longrightarrow>
          sortsList s = [TypeAsc, s]
        \<and> (folderLike a \<and> \<not> folderLike b \<longrightarrow>
              nodeSortComparator onNull (Some a) (Some b) (sortsList s) = - 1
            \<and> nodeSortComparator onNull (Some b) (Some a) (sortsList s) = 1)"
    unfolding N
    using typeAsc_first(1) [of a b "[s]"] typeAsc_first(2) [of b a "[s]"]
    by (auto simp: not_size_sortsList simp del: compareNodes.simps)
  have namePair: "folderLike a = folderLike b \<and> toLowerCase (name a) < toLowerCase (name b) \<longrightarrow>
          nodeSortComparator onNull (Some a) (Some b) (sortsList NameAsc) = - 1
        \<and> nodeSortComparator onNull (Some a) (Some b) (sortsList NameDesc) = 1"
    unfolding N by (auto simp: sortsList_def three_way_def typeRank_def)
  have updPair: "folderLike a = folderLike b \<and> updatedAtOrZero a < updatedAtOrZero b \<longrightarrow>
          nodeSortComparator onNull (Some a) (Some b) (sortsList UpdatedAtAsc) = - 1
        \<and> nodeSortComparator onNull (Some a) (Some b) (sortsList UpdatedAtDesc) = 1"
    unfolding N by (auto simp: sortsList_def three_way_def typeRank_def)
  from perm list sizeKeys sizePair typeFirst namePair updPair show ?thesis
    by blast
qed

lemmas comparator_eval = sortNodes_def arraySort_def nodeSortComparator_def sortsList_def
  three_way_def typeRank_def folderLike_def toLowerCase_def sizeOrZero_def updatedAtOrZero_def

text \<open>
  The theorem at a folder named b, a root named z, a file named a of size 5 with no time
  of update and a file named C of size 1 updated at time 3. Under the sorts by name the
  folder and the root come first in both directions, though a sorts before b, and a
  comes before C whatever the case; under the sorts by size the folder, which has no
  size, is first when ascending and last when descending; under the sort by time of
  update the file with no time comes first. A \<open>null\<close> in the list is kept.
\<close>

theorem sortNodes_folders_first_then_field_witness:
  "sortNodes (\<lambda>a b ks. 0)
     [Some \<lparr>node_id = ''n3'', name = ''C'', node_type = Other, node_size = Some 1, updated_at = Some 3\<rparr>,
      Some \<lparr>node_id = ''n2'', name = ''a'', node_type = Other, node_size = Some 5, updated_at = None\<rparr>,
      Some \<lparr>node_id = ''n0'', name = ''z'', node_type = Root, node_size = None, updated_at = Some 2\<rparr>,
      Some \<lparr>node_id = ''n1'', name = ''b'', node_type = Folder, node_size = None, updated_at = Some 1\<rparr>]
     NameAsc
   = [Some \<lparr>node_id = ''n1'', name = ''b'', node_type = Folder, node_size = None, updated_at = Some 1\<rparr>,
      Some \<lparr>node_id = ''n0'', name = ''z'', node_type = Root, node_size = None, updated_at = Some 2\<rparr>,
      Some \<lparr>node_id = ''n2'', name = ''a'', node_type = Other, node_size = Some 5, updated_at = None\<rparr>,
      Some \<lparr>node_id = ''n3'', name = ''C'', node_type = Other, node_size = Some 1, updated_at = Some 3\<rparr>]
   \<and> sortNodes (\<lambda>a b ks. 0)
     [Some \<lparr>node_id = ''n3'', name = ''C'', node_type = Other, node_size = Some 1, updated_at = Some 3\<rparr>,
      Some \<lparr>node_id = ''n2'', name = ''a'', node_type = Other, node_size = Some 5, updated_at = None\<rparr>,
      Some \<lparr>node_id = ''n0'', name = ''z'', node_type = Root, node_size = None, updated_at = Some 2\<rparr>,
      Some \<lparr>node_id = ''n1'', name = ''b'', node_type = Folder, node_size = None, updated_at = Some 1\<rparr>]
     NameDesc
   = [Some \<lparr>node_id = ''n0'', name = ''z'', node_type = Root, node_size = None, updated_at = Some 2\<rparr>,
      Some \<lparr>node_id = ''n1'', name = ''b'', node_type = Folder, node_size = None, updated_at = Some 1\<rparr>,
      Some \<lparr>node_id = ''n3'', name = ''C'', node_type = Other, node_size = Some 1, updated_at = Some 3\<rparr>,
      Some \<lparr>node_id = ''n2'', name = ''a'', node_type = Other, node_size = Some 5, updated_at = None\<rparr>]
   \<and> sortNodes (\<lambda>a b ks. 0)
     [Some \<lparr>node_id = ''n2'', name = ''a'', node_type = Other, node_size = Some 5, updated_at = None\<rparr>,
      Some \<lparr>node_id = ''n1'', name = ''b'', node_type = Folder, node_size = None, updated_at = Some 1\<rparr>,
      Some \<lparr>node_id = ''n3'', name = ''C'', node_type = Other, node_size = Some 1, updated_at = Some 3\<rparr>]
     SizeAsc
   = [Some \<lparr>node_id = ''n1'', name = ''b'', node_type = Folder, node_size = None, updated_at = Some 1\<rparr>,
      Some \<lparr>node_id = ''n3'', name = ''C'', node_type = Other, node_size = Some 1, updated_at = Some 3\<rparr>,
      Some \<lparr>node_id = ''n2'', name = ''a'', node_type = Other, node_size = Some 5, updated_at = None\<rparr>]
   \<and> sortNodes (\<lambda>a b ks. 0)
     [Some \<lparr>node_id = ''n1'', name = ''b'', node_type = Folder, node_size = None, updated_at = Some 1\<rparr>,
      Some \<lparr>node_id = ''n3'', name = ''C'', node_type = Other, node_size = Some 1, updated_at = Some 3\<rparr>,
      Some \<lparr>node_id = ''n2'', name = ''a'', node_type = Other, node_size = Some 5, updated_at = None\<rparr>]
     SizeDesc
   = [Some \<lparr>node_id = ''n2'', name = ''a'', node_type = Other, node_size = Some 5, updated_at = None\<rparr>,
      Some \<lparr>node_id = ''n3'', name = ''C'', node_type = Other, node_size = Some 1, updated_at = Some 3\<rparr>,
      Some \<lparr>node_id = ''n1'', name = ''b'', node_type = Folder, node_size = None, updated_at = Some 1\<rparr>]
   \<and> sortNodes (\<lambda>a b ks. 0)
     [Some \<lparr>node_id = ''n3'', name = ''C'', node_type = Other, node_size = Some 1, updated_at = Some 3\<rparr>,
      Some \<lparr>node_id = ''n2'', name = ''a'', node_type = Other, node_size = Some 5, updated_at = None\<rparr>]
     UpdatedAtAsc
   = [Some \<lparr>node_id = ''n2'', name = ''a'', node_type = Other, node_size = Some 5, updated_at = None\<rparr>,
      Some \<lparr>node_id = ''n3'', name = ''C'', node_type = Other, node_size = Some 1, updated_at = Some 3\<rparr>]
   \<and> nodeSortComparator (\<lambda>a b ks. 0)
       (Some \<lparr>node_id = ''n1'', name = ''b'', node_type = Folder, node_size = None, updated_at = Some 1\<rparr>)
       (Some \<lparr>node_id = ''n2'', name = ''a'', node_type = Other, node_size = Some 5, updated_at = None\<rparr>)
       (sortsList NameDesc) = - 1
   \<and> nodeSortComparator (\<lambda>a b ks. 0)
       (Some \<lparr>node_id = ''n2'', name = ''a'', node_type = Other, node_size = Some 5, updated_at = None\<rparr>)
       (Some \<lparr>node_id = ''n3'', name = ''C'', node_type = Other, node_size = Some 1, updated_at = Some 3\<rparr>)
       (sortsList NameAsc) = - 1
   \<and> nodeSortComparator (\<lambda>a b ks. 0)
       (Some \<lparr>node_id = ''n1'', name = ''b'', node_type = Folder, node_size = None, updated_at = Some 1\<rparr>)
       (Some \<lparr>node_id = ''n2'', name = ''a'', node_type = Other, node_size = Some 5, updated_at = None\<rparr>)
       (sortsList SizeDesc) = 1
   \<and> mset (sortNodes (\<lambda>a b ks. 0)
       [None,
        Some \<lparr>node_id = ''n2'', name = ''a'', node_type = Other, node_size = Some 5, updated_at = None\<rparr>]
       NameAsc)
     = mset [None,
        Some \<lparr>node_id = ''n2'', name = ''a'', node_type = Other, node_size = Some 5, updated_at = None\<rparr>]"
proof -
  let ?F = "\<lparr>node_id = ''n1'', name = ''b'', node_type = Folder, node_size = None,
             updated_at = Some 1\<rparr>"
  let ?G = "\<lparr>node_id = ''n2'', name = ''a'', node_type = Other, node_size = Some 5,
             updated_at = None\<rparr>"
  let ?H = "\<lparr>node_id = ''n3'', name = ''C'', node_type = Other, node_size = Some 1,
             updated_at = Some 3\<rparr>"
  let ?Z = "\<lparr>node_id = ''n0'', name = ''z'', node_type = Root, node_size = None,
             updated_at = Some 2\<rparr>"
  have kind: "folderLike ?F \<and> \<not> folderLike ?G" "folderLike ?G = folderLike ?H"
    by (simp_all add: folderLike_def)
  have fields: "toLowerCase (name ?G) < toLowerCase (name ?H)" "sizeOrZero ?F < sizeOrZero ?G"
    by (simp_all add: toLowerCase_def sizeOrZero_def)
  have ne: "NameDesc \<noteq> SizeAsc \<and> NameDesc \<noteq> SizeDesc"
    by simp
  have lists:
    "sortNodes (\<lambda>a b ks. 0) [Some ?H, Some ?G, Some ?Z, Some ?F] NameAsc
       = [Some ?F, Some ?Z, Some ?G, Some ?H]"
    "sortNodes (\<lambda>a b ks. 0) [Some ?H, Some ?G, Some ?Z, Some ?F] NameDesc
       = [Some ?Z, Some ?F, Some ?H, Some ?G]"
    "sortNodes (\<lambda>a b ks. 0) [Some ?G, Some ?F, Some ?H] SizeAsc = [Some ?F, Some ?H, Some ?G]"
    "sortNodes (\<lambda>a b ks. 0) [Some ?F, Some ?H, Some ?G] SizeDesc = [Some ?G, Some ?H, Some ?F]"
    "sortNodes (\<lambda>a b ks. 0) [Some ?H, Some ?G] UpdatedAtAsc = [Some ?G, Some ?H]"
    by (simp_all add: comparator_eval)
  from sortNodes_folders_first_then_field
    [where onNull = "\<lambda>a b ks. 0" and s = NameDesc and a = ?F and b = ?G and t = Folder
       and u = Other and nodeList = "[]" and anyList = "[None, Some ?G]"]
    kind(1) ne
  have c1: "nodeSortComparator (\<lambda>a b ks. 0) (Some ?F) (Some ?G) (sortsList NameDesc) = - 1"
    by blast
  from sortNodes_folders_first_then_field
    [where onNull = "\<lambda>a b ks. 0" and s = NameAsc and a = ?G and b = ?H and t = Other
       and u = Other and nodeList = "[]" and anyList = "[None, Some ?G]"]
    kind(2) fields(1)
  have c2: "nodeSortComparator (\<lambda>a b ks. 0) (Some ?G) (Some ?H) (sortsList NameAsc) = - 1"
    and m: "mset (sortNodes (\<lambda>a b ks. 0) [None, Some ?G] NameAsc) = mset [None, Some ?G]"
    by blast+
  from sortNodes_folders_first_then_field
    [where onNull = "\<lambda>a b ks. 0" and s = SizeDesc and a = ?F and b = ?G and t = Folder
       and u = Other and nodeList = "[]" and anyList = "[]"]
    fields(2)
  have c3: "nodeSortComparator (\<lambda>a b ks. 0) (Some ?F) (Some ?G) (sortsList SizeDesc) = 1"
    by blast
  from lists c1 c2 c3 m show ?thesis by blast
qed

text \<open>
  The claim as it is written partitions by type per direction: the spec has the
  folder-like nodes before the others, or the reverse, depending on the direction.
  \<open>sortNodes\<close> has no reverse: a folder named a comes before a file named b under the
  descending sort by name as under the ascending one, while the files named b and c
  change places with the direction.
\<close>

theorem sortNodes_folder_first_when_descending_counterexample:
  "sortNodes (\<lambda>a b ks. 0)
     [Some \<lparr>node_id = ''n2'', name = ''b'', node_type = Other, node_size = Some 5, updated_at = Some 2\<rparr>,
      Some \<lparr>node_id = ''n1'', name = ''a'', node_type = Folder, node_size = None, updated_at = Some 1\<rparr>]
     NameAsc
   = [Some \<lparr>node_id = ''n1'', name = ''a'', node_type = Folder, node_size = None, updated_at = Some 1\<rparr>,
      Some \<lparr>node_id = ''n2'', name = ''b'', node_type = Other, node_size = Some 5, updated_at = Some 2\<rparr>]
   \<and> sortNodes (\<lambda>a b ks. 0)
     [Some \<lparr>node_id = ''n2'', name = ''b'', node_type = Other, node_size = Some 5, updated_at = Some 2\<rparr>,
      Some \<lparr>node_id = ''n1'', name = ''a'', node_type = Folder, node_size = None, updated_at = Some 1\<rparr>]
     NameDesc
   = [Some \<lparr>node_id = ''n1'', name = ''a'', node_type = Folder, node_size = None, updated_at = Some 1\<rparr>,
      Some \<lparr>node_id = ''n2'', name = ''b'', node_type = Other, node_size = Some 5, updated_at = Some 2\<rparr>]
   \<and> sortNodes (\<lambda>a b ks. 0)
     [Some \<lparr>node_id = ''n2'', name = ''b'', node_type = Other, node_size = Some 5, updated_at = Some 2\<rparr>,
      Some \<lparr>node_id = ''n3'', name = ''c'', node_type = Other, node_size = Some 1, updated_at = Some 3\<rparr>]
     NameAsc
   = [Some \<lparr>node_id = ''n2'', name = ''b'', node_type = Other, node_size = Some 5, updated_at = Some 2\<rparr>,
      Some \<lparr>node_id = ''n3'', name = ''c'', node_type = Other, node_size = Some 1, updated_at = Some 3\<rparr>]
   \<and> sortNodes (\<lambda>a b ks. 0)
     [Some \<lparr>node_id = ''n2'', name = ''b'', node_type = Other, node_size = Some 5, updated_at = Some 2\<rparr>,
      Some \<lparr>node_id = ''n3'', name = ''c'', node_type = Other, node_size = Some 1, updated_at = Some 3\<rparr>]
     NameDesc
   = [Some \<lparr>node_id = ''n3'', name = ''c'', node_type = Other, node_size = Some 1, updated_at = Some 3\<rparr>,
      Some \<lparr>node_id = ''n2'', name = ''b'', node_type = Other, node_size = Some 5, updated_at = Some 2\<rparr>]
   \<and> sortsList NameDesc = [TypeAsc, NameDesc]"
  by (simp add: comparator_eval)

end
